theory Spec2Isabelle
  imports Complex_Main "HOL-Library.Sublist"
begin

section \<open>Breakout on streams: the data model of \<open>src/index.ts\<close>\<close>

text \<open>
  The program is a Breakout game written with RxJS. Its numbers are JavaScript numbers;
  they are modelled as \<^typ>\<open>real\<close>, which is exact for every comparison and sum below as
  long as no rounding is at stake (the properties proved here are about the structure of
  the tick, not about rounding). The canvas element \<open>stage\<close> comes from the page, which is
  not part of the sources, so its two dimensions are a parameter of every function that
  reads \<open>stage.width\<close> or \<open>stage.height\<close>.

  The fields \<open>x\<close> and \<open>y\<close> of \<open>Point\<close> and \<open>Brick\<close> carry a suffix, as do the fields of
  \<open>Collision\<close>: a record field is a global constant, and \<open>x\<close>, \<open>floor\<close> or \<open>ceiling\<close>
  would capture variables and library functions.
\<close>

record Stage =
  width :: real
  height :: real

record Point =
  x_pt :: real
  y_pt :: real

record Ball =
  position :: Point
  direction :: Point

record Brick =
  x_br :: real
  y_br :: real
  height_br :: real
  width_br :: real

text \<open>
  \<open>deltaTime\<close> is declared a number, but the clock stream creates every tick with
  \<open>deltaTime: null\<close>: \<open>None\<close> is that \<open>null\<close>.
\<close>

record Ticker =
  time :: real
  deltaTime :: "real option"

record State =
  ball :: Ball
  bricks :: "Brick list"
  score :: real

record Collision =
  paddle_c :: bool
  floor_c :: bool
  wall_c :: bool
  ceiling_c :: bool
  brick_c :: bool

subsection \<open>Constants\<close>

definition PADDLE_WIDTH :: real where "PADDLE_WIDTH = 200"
definition PADDLE_HEIGHT :: real where "PADDLE_HEIGHT = 20"
definition PADDLE_SPEED :: real where "PADDLE_SPEED = 240"

definition BALL_RADIUS :: real where "BALL_RADIUS = 10"
definition BALL_SPEED :: real where "BALL_SPEED = 60"

definition BRICK_ROWS :: nat where "BRICK_ROWS = 5"
definition BRICK_COLUMNS :: nat where "BRICK_COLUMNS = 7"
definition BRICK_HEIGHT :: real where "BRICK_HEIGHT = 20"
definition BRICK_GAP :: real where "BRICK_GAP = 3"

definition ARROW_LEFT :: real where "ARROW_LEFT = - 1"
definition ARROW_RIGHT :: real where "ARROW_RIGHT = 1"

text \<open>
  A \<open>null\<close> operand of \<open>*\<close> is converted by JavaScript's ToNumber, which maps \<open>null\<close> to
  \<open>+0\<close>; a number is left as it is.
\<close>

definition toNumber :: "real option \<Rightarrow> real" where
  "toNumber v = (case v of None \<Rightarrow> 0 | Some r \<Rightarrow> r)"

subsection \<open>Collision functions\<close>

definition isHit :: "Stage \<Rightarrow> Ball \<Rightarrow> real \<Rightarrow> bool" where
  "isHit stage b paddle =
     (let x = x_pt (position b); y = y_pt (position b)
      in x > paddle - PADDLE_WIDTH / 2
       \<and> x < paddle + PADDLE_WIDTH / 2
       \<and> y > height stage - PADDLE_HEIGHT - BALL_RADIUS)"

definition isCollision :: "Ball \<Rightarrow> Brick \<Rightarrow> bool" where
  "isCollision b brick =
     (x_pt (position b) + x_pt (direction b) > x_br brick - width_br brick / 2
    \<and> x_pt (position b) + x_pt (direction b) < x_br brick + width_br brick / 2
    \<and> y_pt (position b) + y_pt (direction b) > y_br brick - height_br brick / 2
    \<and> y_pt (position b) + y_pt (direction b) < y_br brick + height_br brick / 2)"

subsection \<open>The streams' operators\<close>

text \<open>
  A stream is the list of the values it emits, in order. \<open>scan\<close> with a seed emits every
  accumulated value and not the seed; \<open>scan\<close> without a seed emits the first value as it
  is and accumulates from it. \<open>distinctUntilChanged\<close> drops a value equal to the one
  emitted before it.
\<close>

fun scan_seed :: "('a \<Rightarrow> 'b \<Rightarrow> 'a) \<Rightarrow> 'a \<Rightarrow> 'b list \<Rightarrow> 'a list" where
  "scan_seed f acc [] = []"
| "scan_seed f acc (v # vs) = f acc v # scan_seed f (f acc v) vs"

fun scan :: "('a \<Rightarrow> 'a \<Rightarrow> 'a) \<Rightarrow> 'a list \<Rightarrow> 'a list" where
  "scan f [] = []"
| "scan f (v # vs) = v # scan_seed f v vs"

fun distinctFrom :: "'a \<Rightarrow> 'a list \<Rightarrow> 'a list" where
  "distinctFrom prev [] = []"
| "distinctFrom prev (v # vs) =
     (if v = prev then distinctFrom prev vs else v # distinctFrom v vs)"

fun distinctUntilChanged :: "'a list \<Rightarrow> 'a list" where
  "distinctUntilChanged [] = []"
| "distinctUntilChanged (v # vs) = v # distinctFrom v vs"

subsection \<open>Input and clock\<close>

datatype KeyboardEvent = KeyDown string | KeyUp string

text \<open>
  \<open>direction$\<close> merges three streams fed by the same key events: what one event makes
  them emit, in the order of the merge.
\<close>

definition directionOf :: "KeyboardEvent \<Rightarrow> real list" where
  "directionOf event =
     (case event of
        KeyDown k \<Rightarrow> (if k = ''ArrowLeft'' then [ARROW_LEFT] else [])
                    @ (if k = ''ArrowRight'' then [ARROW_RIGHT] else [])
      | KeyUp k \<Rightarrow> [0])"

definition direction_stream :: "KeyboardEvent list \<Rightarrow> real list" where
  "direction_stream events = concat (map directionOf events)"

text \<open>The value \<open>withLatestFrom\<close> samples: the last one emitted, if any.\<close>

definition latest :: "'a list \<Rightarrow> 'a option" where
  "latest vs = (case rev vs of [] \<Rightarrow> None | v # _ \<Rightarrow> Some v)"

text \<open>The clock, from the readings of \<open>Date.now()\<close> at the ticks of the interval.\<close>

definition ticker_stream :: "real list \<Rightarrow> Ticker list" where
  "ticker_stream nows =
     scan (\<lambda>previous current.
             \<lparr>time = time current,
              deltaTime = Some ((time current - time previous) / 1000)\<rparr>)
          (map (\<lambda>now. \<lparr>time = now, deltaTime = None\<rparr>) nows)"

subsection \<open>Paddle\<close>

definition paddleDist :: "Ticker \<Rightarrow> real \<Rightarrow> real" where
  "paddleDist ticker dir = toNumber (deltaTime ticker) * PADDLE_SPEED * dir"

definition paddleNext :: "Stage \<Rightarrow> real \<Rightarrow> real \<Rightarrow> real" where
  "paddleNext stage pos delta =
     (let nextPosistion = pos + delta
      in max (min nextPosistion (width stage - PADDLE_WIDTH / 2)) (PADDLE_WIDTH / 2))"

text \<open>
  \<open>createPaddle$\<close> on the ticks that found a direction to sample, each paired with the
  direction it sampled.
\<close>

definition createPaddle :: "Stage \<Rightarrow> (Ticker \<times> real) list \<Rightarrow> real list" where
  "createPaddle stage sampled =
     distinctUntilChanged
       (scan_seed (paddleNext stage) (width stage / 2)
          (map (\<lambda>(ticker, dir). paddleDist ticker dir) sampled))"

subsection \<open>Bricks and the initial state\<close>

text \<open>
  \<open>initialState\<close> is a function: every call builds a new ball and, through
  \<open>createBricks\<close>, a new array of bricks, so what a session does to its state in place
  is not seen by the next call. Its value depends on the stage alone.
\<close>

definition createBricks :: "Stage \<Rightarrow> Brick list" where
  "createBricks stage =
     (let w = (width stage - BRICK_GAP - BRICK_GAP * real BRICK_COLUMNS) / real BRICK_COLUMNS
      in foldl (\<lambda>bs i.
           foldl (\<lambda>bs j.
             bs @ [\<lparr>x_br = real j * (w + BRICK_GAP) + w / 2 + BRICK_GAP,
                    y_br = real i * (BRICK_HEIGHT + BRICK_GAP) + BRICK_HEIGHT / 2 + BRICK_GAP + 20,
                    height_br = BRICK_HEIGHT,
                    width_br = w\<rparr>])
             bs [0..<BRICK_COLUMNS])
           [] [0..<BRICK_ROWS])"

definition initialState :: "Stage \<Rightarrow> State" where
  "initialState stage =
     \<lparr>ball = \<lparr>position = \<lparr>x_pt = width stage / 2, y_pt = height stage / 2\<rparr>,
              direction = \<lparr>x_pt = 2, y_pt = 2\<rparr>\<rparr>,
      bricks = createBricks stage,
      score = 0\<rparr>"

subsection \<open>The reducer of \<open>createState$\<close>\<close>

text \<open>
  The reducer changes the ball of the state it is given in place and returns that ball
  in a new state object with a new array of bricks. The state it is given is never read
  again after the tick, so the tick is a function from the state before to the state
  after.

  The two assignments to \<open>ball.position\<close> that open the tick:
\<close>

definition moveBall :: "Ball \<Rightarrow> Ticker \<Rightarrow> Ball" where
  "moveBall b ticker =
     b\<lparr>position :=
         \<lparr>x_pt = x_pt (position b) + x_pt (direction b) * toNumber (deltaTime ticker) * BALL_SPEED,
          y_pt = y_pt (position b) + y_pt (direction b) * toNumber (deltaTime ticker) * BALL_SPEED\<rparr>\<rparr>"

text \<open>
  The body of \<open>bricks.forEach\<close>, on the three variables it writes: \<open>remainingBricks\<close>,
  \<open>score\<close> and \<open>collision.brick\<close>.
\<close>

fun brickStep :: "Ball \<Rightarrow> Brick list \<times> real \<times> bool \<Rightarrow> Brick \<Rightarrow> Brick list \<times> real \<times> bool" where
  "brickStep b (remainingBricks, sc, hit) brick =
     (if \<not> isCollision b brick then (remainingBricks @ [brick], sc, hit)
      else (remainingBricks, sc + 10, True))"

definition forEachBrick :: "Ball \<Rightarrow> Brick list \<Rightarrow> real \<Rightarrow> Brick list \<times> real \<times> bool" where
  "forEachBrick b bs sc = foldl (brickStep b) ([], sc, False) bs"

definition bounceX :: "Ball \<Rightarrow> Ball" where
  "bounceX b = b\<lparr>direction := (direction b)\<lparr>x_pt := - x_pt (direction b)\<rparr>\<rparr>"

definition bounceY :: "Ball \<Rightarrow> Ball" where
  "bounceY b = b\<lparr>direction := (direction b)\<lparr>y_pt := - y_pt (direction b)\<rparr>\<rparr>"

text \<open>
  One tick: the scratch record \<open>collision\<close> as the tick leaves it, and the state it
  returns.
\<close>

definition tick :: "Stage \<Rightarrow> State \<Rightarrow> Ticker \<times> real \<Rightarrow> Collision \<times> State" where
  "tick stage state input =
     (case input of (ticker, paddle) \<Rightarrow>
        let b1 = moveBall (ball state) ticker in
        case forEachBrick b1 (bricks state) (score state) of
          (remainingBricks, sc, brickHit) \<Rightarrow>
        let paddleHit = isHit stage b1 paddle;
            wallHit = (x_pt (position b1) < BALL_RADIUS
                       \<or> x_pt (position b1) > width stage - BALL_RADIUS);
            b2 = (if wallHit then bounceX b1 else b1);
            ceilingHit = (y_pt (position b2) < BALL_RADIUS);
            b3 = (if brickHit \<or> paddleHit \<or> ceilingHit then bounceY b2 else b2)
        in (\<lparr>paddle_c = paddleHit, floor_c = False, wall_c = wallHit,
             ceiling_c = ceilingHit, brick_c = brickHit\<rparr>,
            \<lparr>ball = b3, bricks = remainingBricks, score = sc\<rparr>))"

definition reducer :: "Stage \<Rightarrow> State \<Rightarrow> Ticker \<times> real \<Rightarrow> State" where
  "reducer stage state input = snd (tick stage state input)"

definition collision :: "Stage \<Rightarrow> State \<Rightarrow> Ticker \<times> real \<Rightarrow> Collision" where
  "collision stage state input = fst (tick stage state input)"

text \<open>
  A session: the state after the ticks that reached the reducer, each paired with the
  paddle position it sampled, from a fresh \<open>initialState()\<close>.
\<close>

definition session :: "Stage \<Rightarrow> (Ticker \<times> real) list \<Rightarrow> State" where
  "session stage inputs = foldl (reducer stage) (initialState stage) inputs"

subsection \<open>The view and the end of a session\<close>

text \<open>
  What \<open>updateView\<close> does, in order: the drawing calls, and the errors it puts on
  \<open>restart$\<close>.
\<close>

datatype Effect =
    ClearRect real real real real
  | DrawPaddle real
  | DrawBall Ball
  | DrawBricks "Brick list"
  | DrawScore real
  | DrawGameOver string
  | RestartError string

definition drawGameOver :: "Stage \<Rightarrow> string \<Rightarrow> Effect list" where
  "drawGameOver stage message =
     [ClearRect 0 0 (width stage) (height stage), DrawGameOver message]"

definition updateView :: "Stage \<Rightarrow> Ticker \<times> real \<times> State \<Rightarrow> Effect list" where
  "updateView stage frame =
     (case frame of (ticker, paddle, st) \<Rightarrow>
        [ClearRect 0 0 (width stage) (height stage),
         DrawPaddle paddle, DrawBall (ball st), DrawBricks (bricks st), DrawScore (score st)]
        @ (if y_pt (position (ball st)) > height stage - BALL_RADIUS
           then drawGameOver stage ''GAME OVER'' @ [RestartError ''game over''] else [])
        @ (if length (bricks st) = 0
           then drawGameOver stage ''Congradulations!'' @ [RestartError ''cong''] else []))"

text \<open>
  What subscribing to \<open>game$\<close> sets up, at boot and at every retry: the seed of the paddle
  scan and the seed of the state scan.
\<close>

record Session =
  paddleSeed :: real
  stateSeed :: State

definition game :: "Stage \<Rightarrow> Session" where
  "game stage = \<lparr>paddleSeed = width stage / 2, stateSeed = initialState stage\<rparr>"

text \<open>
  \<open>retryWhen\<close> on the effects of one frame: an error on \<open>restart$\<close> ends the running
  subscription to \<open>game$\<close>, and after the delay \<open>game$\<close> is subscribed again, which runs
  its subscribe function anew (\<open>Some\<close> of the session it sets up); without an error the
  session goes on (\<open>None\<close>).
\<close>

definition isRestartError :: "Effect \<Rightarrow> bool" where
  "isRestartError e = (case e of RestartError _ \<Rightarrow> True | _ \<Rightarrow> False)"

definition retryWhen :: "Stage \<Rightarrow> Effect list \<Rightarrow> Session option" where
  "retryWhen stage effects =
     (if list_ex isRestartError effects then Some (game stage) else None)"

subsection \<open>Concrete inputs\<close>

text \<open>A 480 by 320 stage, and one narrower than the paddle.\<close>

definition stage0 :: Stage where
  "stage0 = \<lparr>width = 480, height = 320\<rparr>"

definition narrowStage :: Stage where
  "narrowStage = \<lparr>width = 100, height = 320\<rparr>"

definition tickAt :: "real option \<Rightarrow> Ticker" where
  "tickAt d = \<lparr>time = 0, deltaTime = d\<rparr>"

text \<open>A small brick one direction step ahead of the centre of the stage.\<close>

definition brick1 :: Brick where
  "brick1 = \<lparr>x_br = 242, y_br = 162, height_br = 2, width_br = 2\<rparr>"

definition state1 :: State where
  "state1 =
     \<lparr>ball = \<lparr>position = \<lparr>x_pt = 240, y_pt = 160\<rparr>, direction = \<lparr>x_pt = 2, y_pt = 2\<rparr>\<rparr>,
      bricks = [brick1], score = 0\<rparr>"

text \<open>The full grid with the ball in the band of the left wall.\<close>

definition state2 :: State where
  "state2 = (initialState stage0)\<lparr>ball :=
     \<lparr>position = \<lparr>x_pt = 5, y_pt = 160\<rparr>, direction = \<lparr>x_pt = - 2, y_pt = 2\<rparr>\<rparr>\<rparr>"

text \<open>The full grid with the centre of the ball on the floor line.\<close>

definition state3 :: State where
  "state3 = (initialState stage0)\<lparr>ball :=
     \<lparr>position = \<lparr>x_pt = 240, y_pt = 320\<rparr>, direction = \<lparr>x_pt = 2, y_pt = 2\<rparr>\<rparr>\<rparr>"

text \<open>
  A play of four ticks on \<open>stage0\<close> with the paddle at 380: the ball comes down on the
  paddle, rises, turns at the right wall and then meets the last brick of the grid.
\<close>

definition trace3 :: "(Ticker \<times> real) list" where
  "trace3 = [(\<lparr>time = 1100, deltaTime = Some (11 / 10)\<rparr>, 380),
             (\<lparr>time = 1900, deltaTime = Some (8 / 10)\<rparr>, 380),
             (\<lparr>time = 2000, deltaTime = Some (1 / 10)\<rparr>, 380)]"

definition hitTick :: "Ticker \<times> real" where
  "hitTick = (\<lparr>time = 2450, deltaTime = Some (45 / 100)\<rparr>, 380)"

text \<open>Five ticks with the direction each of them samples.\<close>

definition samples0 :: "(Ticker \<times> real) list" where
  "samples0 = [(tickAt None, 1), (tickAt (Some (1 / 2)), 1), (tickAt (Some 1), 1),
               (tickAt (Some 1), 1), (tickAt (Some 3), - 1)]"

text \<open>One long tick from the initial state, with the paddle at 380.\<close>

definition longTick :: "Ticker \<times> real" where
  "longTick = (\<lparr>time = 1300, deltaTime = Some (13 / 10)\<rparr>, 380)"

definition brick34 :: Brick where
  "brick34 = \<lparr>x_br = 3111 / 7, y_br = 125, height_br = 20, width_br = 456 / 7\<rparr>"

section \<open>Properties\<close>

lemmas const_defs =
  PADDLE_WIDTH_def PADDLE_HEIGHT_def PADDLE_SPEED_def BALL_RADIUS_def BALL_SPEED_def
  BRICK_ROWS_def BRICK_COLUMNS_def BRICK_HEIGHT_def BRICK_GAP_def ARROW_LEFT_def
  ARROW_RIGHT_def

lemmas eval_defs = stage0_def tickAt_def const_defs toNumber_def
  isHit_def isCollision_def moveBall_def bounceX_def bounceY_def forEachBrick_def
  tick_def reducer_def collision_def Let_def

subsection \<open>The loop over the bricks\<close>

text \<open>
  The \<open>forEach\<close> keeps the bricks that fail the test, in their order, adds 10 to the
  score for each brick that passes it, and sets the flag when one does.
\<close>

lemma foldl_brickStep:
  "foldl (brickStep b) (acc, sc, hit) bs =
     (acc @ filter (\<lambda>br. \<not> isCollision b br) bs,
      sc + 10 * real (length (filter (isCollision b) bs)),
      hit \<or> (\<exists>br \<in> set bs. isCollision b br))"
  by (induction bs arbitrary: acc sc hit) auto

lemma forEachBrick_eq:
  "forEachBrick b bs sc =
     (filter (\<lambda>br. \<not> isCollision b br) bs,
      sc + 10 * real (length (filter (isCollision b) bs)),
      \<exists>br \<in> set bs. isCollision b br)"
  by (simp add: forEachBrick_def foldl_brickStep)

lemma reducer_bricks:
  "bricks (reducer stage s (ticker, paddle)) =
     filter (\<lambda>br. \<not> isCollision (moveBall (ball s) ticker) br) (bricks s)"
  by (simp add: reducer_def tick_def forEachBrick_eq Let_def)

lemma reducer_score:
  "score (reducer stage s (ticker, paddle)) =
     score s + 10 * real (length (filter (isCollision (moveBall (ball s) ticker)) (bricks s)))"
  by (simp add: reducer_def tick_def forEachBrick_eq Let_def)

lemma collision_brick:
  "brick_c (collision stage s (ticker, paddle)) =
     (\<exists>br \<in> set (bricks s). isCollision (moveBall (ball s) ticker) br)"
  by (simp add: collision_def tick_def forEachBrick_eq Let_def)

lemma isCollision_abs:
  "isCollision b br \<longleftrightarrow>
     \<bar>x_pt (position b) + x_pt (direction b) - x_br br\<bar> < width_br br / 2
   \<and> \<bar>y_pt (position b) + y_pt (direction b) - y_br br\<bar> < height_br br / 2"
  unfolding isCollision_def by linarith

text \<open>
  C1, as the code has it. The test of every brick is \<open>isCollision\<close> on the ball after
  the two assignments that move it: the tested point is the moved position plus one
  direction step that is not scaled by the time. The bricks kept are those that fail the
  test, in their order; the score grows by 10 for each brick that passes it; and
  \<open>collision.brick\<close> is set exactly when some brick passes it.
\<close>

theorem brick_test_on_moved_ball:
  "bricks (reducer stage s (ticker, paddle)) =
     filter (\<lambda>br. \<not> isCollision (moveBall (ball s) ticker) br) (bricks s)
   \<and> score (reducer stage s (ticker, paddle)) =
       score s + 10 * real (length (filter (isCollision (moveBall (ball s) ticker)) (bricks s)))
   \<and> brick_c (collision stage s (ticker, paddle)) =
       (\<exists>br \<in> set (bricks s). isCollision (moveBall (ball s) ticker) br)
   \<and> isCollision (moveBall (ball s) ticker) br =
       (\<bar>x_pt (position (ball s))
           + x_pt (direction (ball s)) * toNumber (deltaTime ticker) * BALL_SPEED
           + x_pt (direction (ball s)) - x_br br\<bar> < width_br br / 2
      \<and> \<bar>y_pt (position (ball s))
           + y_pt (direction (ball s)) * toNumber (deltaTime ticker) * BALL_SPEED
           + y_pt (direction (ball s)) - y_br br\<bar> < height_br br / 2)"
  by (simp add: reducer_bricks reducer_score collision_brick isCollision_abs)
     (simp add: moveBall_def)

text \<open>
  C1 as stated fails. With the ball at (240, 160) and direction (2, 2), the position
  before the move plus one direction step is (242, 162), inside \<open>brick1\<close>; a tick of one
  second moves the ball to (360, 280) first, the test is made there and fails: the brick
  is kept, the score stays and the flag is not set.
\<close>

theorem brick_test_before_move_counterexample:
  "isCollision (ball state1) brick1
   \<and> bricks (reducer stage0 state1 (tickAt (Some 1), 240)) = [brick1]
   \<and> score (reducer stage0 state1 (tickAt (Some 1), 240)) = score state1
   \<and> \<not> brick_c (collision stage0 state1 (tickAt (Some 1), 240))"
  by (simp add: eval_defs brick1_def state1_def)

subsection \<open>A tick that takes no time\<close>

lemma moveBall_zero: "toNumber (deltaTime ticker) = 0 \<Longrightarrow> moveBall b ticker = b"
  by (simp add: moveBall_def)

lemma filter_none:
  "\<not> (\<exists>br \<in> set bs. isCollision b br) \<Longrightarrow>
     filter (\<lambda>br. \<not> isCollision b br) bs = bs \<and> length (filter (isCollision b) bs) = 0"
  by (induction bs) auto

lemma tick_zero:
  assumes "toNumber (deltaTime ticker) = 0"
  shows "tick stage s (ticker, paddle) =
    (let brickHit = (\<exists>br \<in> set (bricks s). isCollision (ball s) br);
         paddleHit = isHit stage (ball s) paddle;
         wallHit = (x_pt (position (ball s)) < BALL_RADIUS
                    \<or> x_pt (position (ball s)) > width stage - BALL_RADIUS);
         ceilingHit = (y_pt (position (ball s)) < BALL_RADIUS)
     in (\<lparr>paddle_c = paddleHit, floor_c = False, wall_c = wallHit,
          ceiling_c = ceilingHit, brick_c = brickHit\<rparr>,
         \<lparr>ball = (ball s)\<lparr>direction :=
                   \<lparr>x_pt = (if wallHit then - x_pt (direction (ball s))
                            else x_pt (direction (ball s))),
                    y_pt = (if brickHit \<or> paddleHit \<or> ceilingHit
                            then - y_pt (direction (ball s))
                            else y_pt (direction (ball s)))\<rparr>\<rparr>,
          bricks = filter (\<lambda>br. \<not> isCollision (ball s) br) (bricks s),
          score = score s + 10 * real (length (filter (isCollision (ball s)) (bricks s)))\<rparr>))"
  by (simp add: tick_def forEachBrick_eq moveBall_zero [OF assms] Let_def bounceX_def bounceY_def)

lemma createBricks_closed:
  "createBricks stage =
     concat (map (\<lambda>i. map (\<lambda>j.
       \<lparr>x_br = real j * ((width stage - BRICK_GAP - BRICK_GAP * real BRICK_COLUMNS)
                           / real BRICK_COLUMNS + BRICK_GAP)
                + (width stage - BRICK_GAP - BRICK_GAP * real BRICK_COLUMNS)
                  / real BRICK_COLUMNS / 2 + BRICK_GAP,
        y_br = real i * (BRICK_HEIGHT + BRICK_GAP) + BRICK_HEIGHT / 2 + BRICK_GAP + 20,
        height_br = BRICK_HEIGHT,
        width_br = (width stage - BRICK_GAP - BRICK_GAP * real BRICK_COLUMNS)
                   / real BRICK_COLUMNS\<rparr>)
       [0..<BRICK_COLUMNS]) [0..<BRICK_ROWS])"
proof -
  have inner: "foldl (\<lambda>bs j. bs @ [f j]) acc js = acc @ map f js"
    for f :: "nat \<Rightarrow> Brick" and acc js
    by (induction js arbitrary: acc) simp_all
  have outer: "foldl (\<lambda>bs i. bs @ g i) acc is = acc @ concat (map g is)"
    for g :: "nat \<Rightarrow> Brick list" and acc "is"
    by (induction "is" arbitrary: acc) simp_all
  show ?thesis
    unfolding createBricks_def Let_def inner outer by simp
qed

lemma length_createBricks: "length (createBricks stage) = BRICK_ROWS * BRICK_COLUMNS"
  unfolding createBricks_closed by (simp add: length_concat o_def sum_list_triv)

lemma collision_initial_zero:
  "collision stage0 (initialState stage0) (tickAt (Some 0), 240) =
     \<lparr>paddle_c = False, floor_c = False, wall_c = False, ceiling_c = False, brick_c = False\<rparr>"
  by (simp add: initialState_def createBricks_closed eval_defs upt_rec [of _ "numeral _"])

text \<open>
  C2, as the code has it. On a tick whose \<open>deltaTime\<close> is 0 the ball's position is
  unchanged; the bricks and the score change only by the brick test, made on the unmoved
  ball; and the ball's direction changes too: its x component changes sign on a wall
  hit, its y component on a brick, paddle or ceiling hit. When the tick finds no
  collision at all, the state it returns is the state it was given.
\<close>

theorem zero_delta_tick:
  assumes "deltaTime ticker = Some 0"
  shows "position (ball (reducer stage s (ticker, paddle))) = position (ball s)
   \<and> bricks (reducer stage s (ticker, paddle)) =
       filter (\<lambda>br. \<not> isCollision (ball s) br) (bricks s)
   \<and> score (reducer stage s (ticker, paddle)) =
       score s + 10 * real (length (filter (isCollision (ball s)) (bricks s)))
   \<and> x_pt (direction (ball (reducer stage s (ticker, paddle)))) =
       (if wall_c (collision stage s (ticker, paddle))
        then - x_pt (direction (ball s)) else x_pt (direction (ball s)))
   \<and> y_pt (direction (ball (reducer stage s (ticker, paddle)))) =
       (if brick_c (collision stage s (ticker, paddle))
           \<or> paddle_c (collision stage s (ticker, paddle))
           \<or> ceiling_c (collision stage s (ticker, paddle))
        then - y_pt (direction (ball s)) else y_pt (direction (ball s)))
   \<and> (\<not> (wall_c (collision stage s (ticker, paddle))
           \<or> brick_c (collision stage s (ticker, paddle))
           \<or> paddle_c (collision stage s (ticker, paddle))
           \<or> ceiling_c (collision stage s (ticker, paddle)))
        \<longrightarrow> reducer stage s (ticker, paddle) = s)"
proof -
  from assms have z: "toNumber (deltaTime ticker) = 0" by (simp add: toNumber_def)
  show ?thesis
    unfolding reducer_def collision_def tick_zero [OF z] Let_def
    by (auto simp: filter_none)
qed

theorem zero_delta_tick_witness:
  "deltaTime (tickAt (Some 0)) = Some 0
   \<and> \<not> wall_c (collision stage0 (initialState stage0) (tickAt (Some 0), 240))
   \<and> \<not> brick_c (collision stage0 (initialState stage0) (tickAt (Some 0), 240))
   \<and> \<not> paddle_c (collision stage0 (initialState stage0) (tickAt (Some 0), 240))
   \<and> \<not> ceiling_c (collision stage0 (initialState stage0) (tickAt (Some 0), 240))
   \<and> reducer stage0 (initialState stage0) (tickAt (Some 0), 240) = initialState stage0"
proof -
  have h: "deltaTime (tickAt (Some 0)) = Some 0" by (simp add: tickAt_def)
  show ?thesis
    using zero_delta_tick [OF h, of stage0 "initialState stage0" 240] h
    by (simp add: collision_initial_zero)
qed

text \<open>
  C2 as stated fails: a field other than the score and the bricks differs. With the ball
  in the band of the left wall, a tick of \<open>deltaTime\<close> 0 leaves bricks, score and position
  as they are and turns the x component of the direction from -2 to 2.
\<close>

theorem zero_delta_direction_counterexample:
  "deltaTime (tickAt (Some 0)) = Some 0
   \<and> bricks (reducer stage0 state2 (tickAt (Some 0), 240)) = bricks state2
   \<and> score (reducer stage0 state2 (tickAt (Some 0), 240)) = score state2
   \<and> position (ball (reducer stage0 state2 (tickAt (Some 0), 240))) = position (ball state2)
   \<and> reducer stage0 state2 (tickAt (Some 0), 240) \<noteq> state2
   \<and> x_pt (direction (ball (reducer stage0 state2 (tickAt (Some 0), 240)))) = 2
   \<and> x_pt (direction (ball state2)) = - 2"
  by (simp add: state2_def initialState_def createBricks_closed eval_defs
      upt_rec [of _ "numeral _"])

subsection \<open>The end of a session\<close>

text \<open>
  C3, as the code has it. \<open>updateView\<close> first draws the frame (the five drawing calls),
  then makes its two tests: it puts the error \<open>game over\<close> on \<open>restart$\<close> exactly when the
  ball's y is greater than the stage height minus one ball radius, and the error \<open>cong\<close>
  exactly when no brick is left.
\<close>

theorem updateView_terminal:
  "(RestartError ''game over'' \<in> set (updateView stage (ticker, paddle, st))
      \<longleftrightarrow> y_pt (position (ball st)) > height stage - BALL_RADIUS)
   \<and> (RestartError ''cong'' \<in> set (updateView stage (ticker, paddle, st))
      \<longleftrightarrow> bricks st = [])
   \<and> take 5 (updateView stage (ticker, paddle, st)) =
       [ClearRect 0 0 (width stage) (height stage), DrawPaddle paddle,
        DrawBall (ball st), DrawBricks (bricks st), DrawScore (score st)]"
  by (simp add: updateView_def drawGameOver_def)

text \<open>
  C3 as stated fails: with the centre of the ball on the floor line, y = 320 on a stage
  of height 320, the ball does not exceed the stage height by more than one radius, and
  the session is lost all the same.
\<close>

theorem lost_threshold_counterexample:
  "RestartError ''game over'' \<in> set (updateView stage0 (tickAt (Some 0), 240, state3))
   \<and> \<not> y_pt (position (ball state3)) > height stage0 + BALL_RADIUS
   \<and> bricks state3 \<noteq> []"
  by (simp add: updateView_def drawGameOver_def state3_def stage0_def initialState_def
      BALL_RADIUS_def createBricks_closed BRICK_ROWS_def BRICK_COLUMNS_def
      upt_rec [of _ "numeral _"])

subsection \<open>Score and bricks along a session\<close>

lemma length_filter_compl:
  "length (filter P xs) = length xs - length (filter (\<lambda>x. \<not> P x) xs)"
  using sum_length_filter_compl [of P xs] by simp

lemma reducer_score_length:
  "score (reducer stage s input) =
     score s + 10 * real (length (bricks s) - length (bricks (reducer stage s input)))"
proof (cases input)
  case (Pair ticker paddle)
  show ?thesis unfolding Pair reducer_score reducer_bricks
    using length_filter_compl [of "isCollision (moveBall (ball s) ticker)" "bricks s"] by simp
qed

lemma reducer_score_mono: "score s \<le> score (reducer stage s input)"
  by (simp add: reducer_score_length)

lemma foldl_reducer_score_mono: "score s \<le> score (foldl (reducer stage) s inputs)"
proof (induction inputs arbitrary: s)
  case Nil
  show ?case by simp
next
  case (Cons i inputs)
  have "score s \<le> score (reducer stage s i)" by (rule reducer_score_mono)
  also have "\<dots> \<le> score (foldl (reducer stage) (reducer stage s i) inputs)"
    by (rule Cons.IH)
  finally show ?case by simp
qed

lemma reducer_subseq: "subseq (bricks (reducer stage s input)) (bricks s)"
  by (cases input) (simp add: reducer_bricks)

lemma foldl_reducer_subseq: "subseq (bricks (foldl (reducer stage) s inputs)) (bricks s)"
proof (induction inputs arbitrary: s)
  case Nil
  show ?case by simp
next
  case (Cons i inputs)
  have "subseq (bricks (foldl (reducer stage) (reducer stage s i) inputs))
          (bricks (reducer stage s i))"
    by (rule Cons.IH)
  then show ?case using reducer_subseq [of stage s i] by (auto intro: subseq_order.trans)
qed

lemma session_append:
  "session stage (inputs @ later) = foldl (reducer stage) (session stage inputs) later"
  by (simp add: session_def)

lemma session_trace3:
  "session stage0 trace3 =
     \<lparr>ball = \<lparr>position = \<lparr>x_pt = 480, y_pt = 184\<rparr>, direction = \<lparr>x_pt = - 2, y_pt = - 2\<rparr>\<rparr>,
      bricks = createBricks stage0, score = 0\<rparr>"
  by (simp add: session_def trace3_def initialState_def createBricks_closed eval_defs
      upt_rec [of _ "numeral _"])

text \<open>
  C4. Every tick adds to the score exactly 10 times the number of bricks it removes; a
  session starts from score 0, so its score is never negative, and it never decreases
  from one tick to any later one.
\<close>

theorem score_counts_removed_bricks:
  "score (reducer stage s input) =
     score s + 10 * real (length (bricks s) - length (bricks (reducer stage s input)))
   \<and> 0 \<le> score (session stage inputs)
   \<and> score (session stage inputs) \<le> score (session stage (inputs @ later))"
proof -
  have "score (initialState stage) = 0" by (simp add: initialState_def)
  then have "0 \<le> score (session stage inputs)"
    unfolding session_def
    using foldl_reducer_score_mono [of "initialState stage" stage inputs] by simp
  then show ?thesis
    by (simp add: reducer_score_length session_append foldl_reducer_score_mono)
qed

text \<open>
  C5. The bricks a tick returns are a subsequence of the bricks it was given, so their
  number does not grow; along a session the bricks after any later tick are a
  subsequence of the bricks before, and a brick that is not in the collection at one
  tick is in it at no later tick.
\<close>

theorem bricks_only_shrink:
  "subseq (bricks (reducer stage s input)) (bricks s)
   \<and> length (bricks (reducer stage s input)) \<le> length (bricks s)
   \<and> subseq (bricks (session stage (inputs @ later))) (bricks (session stage inputs))
   \<and> (br \<notin> set (bricks (session stage inputs)) \<longrightarrow>
        br \<notin> set (bricks (session stage (inputs @ later))))"
proof -
  have 1: "subseq (bricks (reducer stage s input)) (bricks s)" by (rule reducer_subseq)
  have 2: "subseq (bricks (session stage (inputs @ later))) (bricks (session stage inputs))"
    unfolding session_append by (rule foldl_reducer_subseq)
  from 1 have 3: "length (bricks (reducer stage s input)) \<le> length (bricks s)"
    by (rule list_emb_length)
  from 2 have "set (bricks (session stage (inputs @ later)))
      \<subseteq> set (bricks (session stage inputs))"
    by (auto elim: list_emb_set)
  with 1 2 3 show ?thesis by auto
qed

text \<open>
  In the play \<open>trace3\<close> the last brick of the grid is there after three ticks, the
  fourth tick removes it, and it is still gone after a fifth.
\<close>

theorem bricks_only_shrink_witness:
  "brick34 \<in> set (bricks (session stage0 trace3))
   \<and> brick34 \<notin> set (bricks (session stage0 (trace3 @ [hitTick])))
   \<and> brick34 \<notin> set (bricks (session stage0 ((trace3 @ [hitTick]) @ [hitTick])))"
proof -
  have a: "brick34 \<in> set (bricks (session stage0 trace3))"
    unfolding session_trace3
    by (simp add: createBricks_closed brick34_def stage0_def const_defs
        upt_rec [of _ "numeral _"])
  have h: "brick34 \<notin> set (bricks (session stage0 (trace3 @ [hitTick])))"
    by (simp add: session_append session_trace3 hitTick_def reducer_bricks brick34_def
        isCollision_def moveBall_def toNumber_def BALL_SPEED_def)
  have c: "brick34 \<notin> set (bricks (session stage0 ((trace3 @ [hitTick]) @ [hitTick])))"
    by (rule bricks_only_shrink [where inputs = "trace3 @ [hitTick]" and later = "[hitTick]"
          and stage = stage0 and br = brick34 and s = "initialState stage0" and input = hitTick,
          THEN conjunct2, THEN conjunct2, THEN conjunct2, THEN mp, OF h])
  show ?thesis by (intro conjI) (fact a h c)+
qed

subsection \<open>The paddle\<close>

lemma paddleNext_range:
  "PADDLE_WIDTH \<le> width stage \<Longrightarrow>
     PADDLE_WIDTH / 2 \<le> paddleNext stage pos delta
     \<and> paddleNext stage pos delta \<le> width stage - PADDLE_WIDTH / 2"
  by (simp add: paddleNext_def Let_def)

lemma scan_seed_paddleNext_range:
  "PADDLE_WIDTH \<le> width stage \<Longrightarrow> p \<in> set (scan_seed (paddleNext stage) pos deltas) \<Longrightarrow>
     PADDLE_WIDTH / 2 \<le> p \<and> p \<le> width stage - PADDLE_WIDTH / 2"
proof (induction deltas arbitrary: pos)
  case Nil
  then show ?case by simp
next
  case (Cons d deltas)
  from Cons.prems(2) consider "p = paddleNext stage pos d"
    | "p \<in> set (scan_seed (paddleNext stage) (paddleNext stage pos d) deltas)" by auto
  then show ?case
  proof cases
    case 1
    then show ?thesis using paddleNext_range [OF Cons.prems(1)] by blast
  next
    case 2
    then show ?thesis by (rule Cons.IH [OF Cons.prems(1)])
  qed
qed

lemma set_distinctFrom: "set (distinctFrom prev vs) \<subseteq> set vs"
  by (induction vs arbitrary: prev) auto

lemma set_distinctUntilChanged: "set (distinctUntilChanged vs) \<subseteq> set vs"
proof (cases vs)
  case Nil
  then show ?thesis by simp
next
  case (Cons v rest)
  have "set (distinctFrom v rest) \<subseteq> set rest" by (rule set_distinctFrom)
  with Cons show ?thesis by auto
qed

text \<open>
  C6, as the code has it. On a stage at least as wide as the paddle, every position
  \<open>createPaddle$\<close> emits lies between half the paddle's width and the stage's width minus
  half the paddle's width, whatever the directions and the delta-times are, and so does
  the seed of the scan.
\<close>

theorem paddle_within_stage:
  assumes "PADDLE_WIDTH \<le> width stage"
  shows "(\<forall>p \<in> set (createPaddle stage sampled).
            PADDLE_WIDTH / 2 \<le> p \<and> p \<le> width stage - PADDLE_WIDTH / 2)
       \<and> PADDLE_WIDTH / 2 \<le> width stage / 2
       \<and> width stage / 2 \<le> width stage - PADDLE_WIDTH / 2"
proof (intro conjI ballI)
  fix p
  assume "p \<in> set (createPaddle stage sampled)"
  then have "p \<in> set (scan_seed (paddleNext stage) (width stage / 2)
      (map (\<lambda>(ticker, dir). paddleDist ticker dir) sampled))"
    unfolding createPaddle_def by (rule subsetD [OF set_distinctUntilChanged])
  then have r: "PADDLE_WIDTH / 2 \<le> p \<and> p \<le> width stage - PADDLE_WIDTH / 2"
    by (rule scan_seed_paddleNext_range [OF assms])
  from r show "PADDLE_WIDTH / 2 \<le> p" by (rule conjunct1)
  from r show "p \<le> width stage - PADDLE_WIDTH / 2" by (rule conjunct2)
next
  from assms show "PADDLE_WIDTH / 2 \<le> width stage / 2" by linarith
next
  from assms show "width stage / 2 \<le> width stage - PADDLE_WIDTH / 2" by linarith
qed

text \<open>
  On \<open>stage0\<close>: a first tick without a delta, a second to the right, two that would
  leave the stage on the right, and a long one to the left. The positions emitted are
  240, 360, 380 (once: the repeated 380 is dropped) and 100, the interval runs from 100
  to 380.
\<close>

theorem paddle_within_stage_witness:
  "PADDLE_WIDTH \<le> width stage0
   \<and> createPaddle stage0 samples0 = [240, 360, 380, 100]
   \<and> list_all (\<lambda>p. PADDLE_WIDTH / 2 \<le> p \<and> p \<le> width stage0 - PADDLE_WIDTH / 2)
        (createPaddle stage0 samples0)
   \<and> PADDLE_WIDTH / 2 = 100 \<and> width stage0 - PADDLE_WIDTH / 2 = 380"
proof -
  have h: "PADDLE_WIDTH \<le> width stage0" by (simp add: stage0_def PADDLE_WIDTH_def)
  have e: "createPaddle stage0 samples0 = [240, 360, 380, 100]"
    by (simp add: createPaddle_def paddleNext_def paddleDist_def stage0_def tickAt_def
        samples0_def toNumber_def PADDLE_WIDTH_def PADDLE_SPEED_def)
  have b: "PADDLE_WIDTH / 2 = 100 \<and> width stage0 - PADDLE_WIDTH / 2 = 380"
    by (simp add: stage0_def PADDLE_WIDTH_def)
  have a: "list_all (\<lambda>p. PADDLE_WIDTH / 2 \<le> p \<and> p \<le> width stage0 - PADDLE_WIDTH / 2)
        (createPaddle stage0 samples0)"
    unfolding list_all_iff
    by (rule paddle_within_stage [OF h, where sampled = samples0, THEN conjunct1])
  show ?thesis
    by (intro conjI) (fact h e a b [THEN conjunct1] b [THEN conjunct2])+
qed

text \<open>
  C6 as stated fails on a stage narrower than the paddle: on a stage 100 wide the
  interval runs from 100 down to 0, the seed of the scan is 50, and the first position
  emitted is 100, above the upper end.
\<close>

theorem paddle_narrow_stage_counterexample:
  "createPaddle narrowStage [(tickAt None, 0)] = [100]
   \<and> width narrowStage - PADDLE_WIDTH / 2 = 0
   \<and> \<not> (100 \<le> width narrowStage - PADDLE_WIDTH / 2)
   \<and> \<not> (PADDLE_WIDTH / 2 \<le> width narrowStage / 2)"
  by (simp add: createPaddle_def paddleNext_def paddleDist_def narrowStage_def tickAt_def
      toNumber_def PADDLE_WIDTH_def PADDLE_SPEED_def)

text \<open>
  C7, as the code has it. \<open>isHit\<close> is true exactly when the ball's x is less than half
  the paddle's width away from the paddle's centre and the ball's y is greater than the
  stage's height minus \<open>PADDLE_HEIGHT\<close> minus \<open>BALL_RADIUS\<close>: the ball's centre is less
  than one radius above the paddle's top edge, or anywhere below that edge. The test on
  y is one-sided, it has no lower limit, and all three comparisons are strict. \<open>isHit\<close>
  reads its two arguments and the stage's height and writes nothing: it is a function of
  them alone.
\<close>

theorem isHit_iff:
  "isHit stage b paddle \<longleftrightarrow>
     \<bar>x_pt (position b) - paddle\<bar> < PADDLE_WIDTH / 2
   \<and> (height stage - PADDLE_HEIGHT) - y_pt (position b) < BALL_RADIUS"
  unfolding isHit_def Let_def by argo

text \<open>
  C7 as stated fails: the ball's y need not be within one ball radius of the paddle's
  top edge. One tick of 1.3 seconds from the initial state of \<open>stage0\<close> puts the ball at
  (396, 316); the paddle's top edge is at y = 300, so the ball's centre is 16 below it,
  more than one radius (10) away, and \<open>isHit\<close> is true all the same: the tick records a
  paddle collision.
\<close>

theorem isHit_below_band_counterexample:
  "position (ball (reducer stage0 (initialState stage0) longTick)) = \<lparr>x_pt = 396, y_pt = 316\<rparr>
   \<and> isHit stage0 (ball (reducer stage0 (initialState stage0) longTick)) 380
   \<and> paddle_c (collision stage0 (initialState stage0) longTick)
   \<and> height stage0 - PADDLE_HEIGHT = 300
   \<and> \<not> \<bar>316 - (height stage0 - PADDLE_HEIGHT)\<bar> \<le> BALL_RADIUS"
  by (simp add: longTick_def initialState_def createBricks_closed eval_defs
      upt_rec [of _ "numeral _"])

subsection \<open>A new session\<close>

text \<open>
  C8. When \<open>updateView\<close> has put an error on \<open>restart$\<close> (the ball below the floor line
  or no brick left), \<open>retryWhen\<close> subscribes to \<open>game$\<close> again, and the session this sets up
  is the one set up at boot: its state is \<open>initialState()\<close>, whose score is 0 and whose
  bricks are \<open>createBricks()\<close>, that is \<open>BRICK_ROWS\<close> times \<open>BRICK_COLUMNS\<close> bricks, row
  by row, each at the position and of the size the layout gives it; nothing of the
  session that ended is in it.
\<close>

theorem new_session_is_initial:
  "(y_pt (position (ball st)) > height stage - BALL_RADIUS \<or> bricks st = [] \<longrightarrow>
      retryWhen stage (updateView stage (ticker, paddle, st)) = Some (game stage))
   \<and> stateSeed (game stage) = initialState stage
   \<and> score (stateSeed (game stage)) = 0
   \<and> bricks (stateSeed (game stage)) = createBricks stage
   \<and> length (createBricks stage) = BRICK_ROWS * BRICK_COLUMNS
   \<and> createBricks stage =
       concat (map (\<lambda>i. map (\<lambda>j.
         \<lparr>x_br = real j * ((width stage - BRICK_GAP - BRICK_GAP * real BRICK_COLUMNS)
                             / real BRICK_COLUMNS + BRICK_GAP)
                  + (width stage - BRICK_GAP - BRICK_GAP * real BRICK_COLUMNS)
                    / real BRICK_COLUMNS / 2 + BRICK_GAP,
          y_br = real i * (BRICK_HEIGHT + BRICK_GAP) + BRICK_HEIGHT / 2 + BRICK_GAP + 20,
          height_br = BRICK_HEIGHT,
          width_br = (width stage - BRICK_GAP - BRICK_GAP * real BRICK_COLUMNS)
                     / real BRICK_COLUMNS\<rparr>)
         [0..<BRICK_COLUMNS]) [0..<BRICK_ROWS])"
proof (intro conjI impI)
  assume "y_pt (position (ball st)) > height stage - BALL_RADIUS \<or> bricks st = []"
  then show "retryWhen stage (updateView stage (ticker, paddle, st)) = Some (game stage)"
    by (auto simp: retryWhen_def updateView_def drawGameOver_def isRestartError_def)
next
  show "stateSeed (game stage) = initialState stage" by (simp add: game_def)
next
  show "score (stateSeed (game stage)) = 0" by (simp add: game_def initialState_def)
next
  show "bricks (stateSeed (game stage)) = createBricks stage"
    by (simp add: game_def initialState_def)
next
  show "length (createBricks stage) = BRICK_ROWS * BRICK_COLUMNS"
    by (rule length_createBricks)
qed (rule createBricks_closed)

theorem new_session_is_initial_witness:
  "(y_pt (position (ball state3)) > height stage0 - BALL_RADIUS \<or> bricks state3 = [])
   \<and> retryWhen stage0 (updateView stage0 (tickAt (Some 0), 240, state3)) = Some (game stage0)
   \<and> score (stateSeed (game stage0)) = 0
   \<and> length (bricks (stateSeed (game stage0))) = 35"
proof -
  have h: "y_pt (position (ball state3)) > height stage0 - BALL_RADIUS \<or> bricks state3 = []"
    by (simp add: state3_def stage0_def BALL_RADIUS_def)
  note t = new_session_is_initial [where st = state3 and stage = stage0
      and ticker = "tickAt (Some 0)" and paddle = 240]
  have 1: "retryWhen stage0 (updateView stage0 (tickAt (Some 0), 240, state3))
      = Some (game stage0)"
    by (rule t [THEN conjunct1, THEN mp, OF h])
  from t have 2: "score (stateSeed (game stage0)) = 0" by (elim conjE)
  from t have "length (bricks (stateSeed (game stage0))) = BRICK_ROWS * BRICK_COLUMNS"
    by (elim conjE) simp
  then have 3: "length (bricks (stateSeed (game stage0))) = 35"
    by (simp add: BRICK_ROWS_def BRICK_COLUMNS_def)
  show ?thesis by (intro conjI) (fact h 1 2 3)+
qed

subsection \<open>The first tick\<close>

text \<open>
  C9. The first tick the clock emits is the one \<open>map\<close> made, with \<open>deltaTime: null\<close>:
  \<open>scan\<close> has no seed and passes it on untouched. In the products that use it \<open>null\<close>
  counts as 0, so the distance handed to the paddle scan is 0, the paddle scan does what
  it does on a distance of 0 (a position inside the interval stays where it is), the
  ball is not moved, and the reducer returns what it returns on a tick of \<open>deltaTime\<close> 0.
  Every function involved is total and every value is a number.
\<close>

theorem first_tick_neutral:
  "hd (ticker_stream (now # nows)) = \<lparr>time = now, deltaTime = None\<rparr>
   \<and> paddleDist \<lparr>time = now, deltaTime = None\<rparr> dir = 0
   \<and> paddleNext stage pos (paddleDist \<lparr>time = now, deltaTime = None\<rparr> dir)
       = paddleNext stage pos 0
   \<and> (PADDLE_WIDTH / 2 \<le> pos \<and> pos \<le> width stage - PADDLE_WIDTH / 2 \<longrightarrow>
        paddleNext stage pos (paddleDist \<lparr>time = now, deltaTime = None\<rparr> dir) = pos)
   \<and> moveBall b \<lparr>time = now, deltaTime = None\<rparr> = b
   \<and> position (ball (reducer stage s (\<lparr>time = now, deltaTime = None\<rparr>, paddle)))
       = position (ball s)
   \<and> reducer stage s (\<lparr>time = now, deltaTime = None\<rparr>, paddle) =
       reducer stage s (\<lparr>time = now, deltaTime = Some 0\<rparr>, paddle)"
proof -
  have z: "toNumber (deltaTime \<lparr>time = now, deltaTime = None\<rparr>) = 0"
          "toNumber (deltaTime \<lparr>time = now, deltaTime = Some 0\<rparr>) = 0"
    by (simp_all add: toNumber_def)
  have f1: "hd (ticker_stream (now # nows)) = \<lparr>time = now, deltaTime = None\<rparr>"
    by (simp add: ticker_stream_def)
  have f2: "paddleDist \<lparr>time = now, deltaTime = None\<rparr> dir = 0"
    by (simp add: paddleDist_def toNumber_def)
  have f3: "PADDLE_WIDTH / 2 \<le> pos \<and> pos \<le> width stage - PADDLE_WIDTH / 2 \<longrightarrow>
        paddleNext stage pos 0 = pos"
    by (simp add: paddleNext_def Let_def)
  have f4: "moveBall b \<lparr>time = now, deltaTime = None\<rparr> = b"
    by (rule moveBall_zero [OF z(1)])
  have f5: "position (ball (reducer stage s (\<lparr>time = now, deltaTime = None\<rparr>, paddle)))
      = position (ball s)"
    unfolding reducer_def tick_zero [OF z(1)] by (simp add: Let_def)
  have f6: "reducer stage s (\<lparr>time = now, deltaTime = None\<rparr>, paddle) =
       reducer stage s (\<lparr>time = now, deltaTime = Some 0\<rparr>, paddle)"
    unfolding reducer_def tick_zero [OF z(1)] tick_zero [OF z(2)] by (rule refl)
  from f3 have g3: "PADDLE_WIDTH / 2 \<le> pos \<and> pos \<le> width stage - PADDLE_WIDTH / 2 \<longrightarrow>
        paddleNext stage pos (paddleDist \<lparr>time = now, deltaTime = None\<rparr> dir) = pos"
    unfolding f2 .
  have g2: "paddleNext stage pos (paddleDist \<lparr>time = now, deltaTime = None\<rparr> dir)
      = paddleNext stage pos 0"
    unfolding f2 by (rule refl)
  show ?thesis by (intro conjI) (fact f1 f2 g2 g3 f4 f5 f6)+
qed

theorem first_tick_neutral_witness:
  "PADDLE_WIDTH / 2 \<le> 240 \<and> 240 \<le> width stage0 - PADDLE_WIDTH / 2
   \<and> paddleNext stage0 240 (paddleDist \<lparr>time = 1000, deltaTime = None\<rparr> 1) = 240
   \<and> position (ball (reducer stage0 (initialState stage0)
                       (hd (ticker_stream [1000, 1016]), 240)))
       = \<lparr>x_pt = 240, y_pt = 160\<rparr>"
proof -
  have h: "PADDLE_WIDTH / 2 \<le> 240 \<and> 240 \<le> width stage0 - PADDLE_WIDTH / 2"
    by (simp add: stage0_def PADDLE_WIDTH_def)
  note t = first_tick_neutral [where now = 1000 and nows = "[1016]" and dir = 1
      and stage = stage0 and pos = 240 and s = "initialState stage0" and paddle = 240
      and b = "ball (initialState stage0)"]
  have 1: "paddleNext stage0 240 (paddleDist \<lparr>time = 1000, deltaTime = None\<rparr> 1) = 240"
    by (rule t [THEN conjunct2, THEN conjunct2, THEN conjunct2, THEN conjunct1, THEN mp, OF h])
  from t have "position (ball (reducer stage0 (initialState stage0)
      (hd (ticker_stream [1000, 1016]), 240))) = position (ball (initialState stage0))"
    by (elim conjE) simp
  then have 2: "position (ball (reducer stage0 (initialState stage0)
      (hd (ticker_stream [1000, 1016]), 240))) = \<lparr>x_pt = 240, y_pt = 160\<rparr>"
    by (simp add: initialState_def stage0_def)
  show ?thesis using h 1 2 by (intro conjI) simp_all
qed

subsection \<open>The direction\<close>

lemma directionOf_values: "set (directionOf e) \<subseteq> {- 1, 0, 1}"
  by (cases e) (auto simp: directionOf_def ARROW_LEFT_def ARROW_RIGHT_def)

lemma latest_snoc: "latest (vs @ [v]) = Some v"
  by (simp add: latest_def)

text \<open>
  C10. \<open>direction$\<close> emits only -1, 0 and 1. After a keyup of any key its latest value
  is 0; after a keydown of the left arrow it is -1, of the right arrow 1; and a keydown
  of any other key makes it emit nothing, so its latest value stays what it was.
\<close>

theorem direction_values:
  "set (direction_stream events) \<subseteq> {- 1, 0, 1}
   \<and> latest (direction_stream (events @ [KeyUp k])) = Some 0
   \<and> latest (direction_stream (events @ [KeyDown ''ArrowLeft''])) = Some (- 1)
   \<and> latest (direction_stream (events @ [KeyDown ''ArrowRight''])) = Some 1
   \<and> (k \<noteq> ''ArrowLeft'' \<and> k \<noteq> ''ArrowRight'' \<longrightarrow>
        direction_stream (events @ [KeyDown k]) = direction_stream events
        \<and> latest (direction_stream (events @ [KeyDown k])) = latest (direction_stream events))"
proof -
  have "set (direction_stream events) \<subseteq> {- 1, 0, 1}"
    unfolding direction_stream_def using directionOf_values by auto
  moreover have "latest (direction_stream (events @ [KeyUp k])) = Some 0"
    by (simp add: direction_stream_def directionOf_def latest_snoc)
  moreover have "latest (direction_stream (events @ [KeyDown ''ArrowLeft''])) = Some (- 1)"
    by (simp add: direction_stream_def directionOf_def latest_snoc ARROW_LEFT_def)
  moreover have "latest (direction_stream (events @ [KeyDown ''ArrowRight''])) = Some 1"
    by (simp add: direction_stream_def directionOf_def latest_snoc ARROW_RIGHT_def)
  moreover have "direction_stream (events @ [KeyDown k]) = direction_stream events"
    if "k \<noteq> ''ArrowLeft'' \<and> k \<noteq> ''ArrowRight''"
    using that by (simp add: direction_stream_def directionOf_def)
  ultimately show ?thesis by presburger
qed

text \<open>
  The left arrow is held, then the key \<open>a\<close> is pressed: the direction stays -1; when
  the key \<open>a\<close> is released instead, the direction is 0.
\<close>

theorem direction_values_witness:
  "''a'' \<noteq> ''ArrowLeft'' \<and> ''a'' \<noteq> ''ArrowRight''
   \<and> latest (direction_stream [KeyDown ''ArrowLeft'']) = Some (- 1)
   \<and> latest (direction_stream ([KeyDown ''ArrowLeft''] @ [KeyDown ''a''])) = Some (- 1)
   \<and> latest (direction_stream ([KeyDown ''ArrowLeft''] @ [KeyUp ''a''])) = Some 0"
proof -
  have h: "''a'' \<noteq> ''ArrowLeft'' \<and> ''a'' \<noteq> ''ArrowRight''" by simp
  have l: "latest (direction_stream [KeyDown ''ArrowLeft'']) = Some (- 1)"
    by (simp add: direction_stream_def directionOf_def latest_def ARROW_LEFT_def)
  note t = direction_values [where events = "[KeyDown ''ArrowLeft'']" and k = "''a''"]
  have "latest (direction_stream ([KeyDown ''ArrowLeft''] @ [KeyDown ''a'']))
      = latest (direction_stream [KeyDown ''ArrowLeft''])"
    by (rule t [THEN conjunct2, THEN conjunct2, THEN conjunct2, THEN conjunct2, THEN mp,
          OF h, THEN conjunct2])
  then have d: "latest (direction_stream ([KeyDown ''ArrowLeft''] @ [KeyDown ''a'']))
      = Some (- 1)"
    unfolding l .
  have u: "latest (direction_stream ([KeyDown ''ArrowLeft''] @ [KeyUp ''a''])) = Some 0"
    by (rule t [THEN conjunct2, THEN conjunct1])
  show ?thesis by (intro conjI) (fact h [THEN conjunct1] h [THEN conjunct2] l d u)+
qed

end
